theory Spec2Isabelle
  imports Main
begin

section \<open>Values shared by the screens and the PWA provider\<close>

text \<open>
  A JavaScript \<open>number\<close> that holds a stock count, a quantity or a price is an \<open>int\<close>;
  an optional property (\<open>storeId?: string\<close>, or \<open>user?.storeId\<close>) is an \<open>option\<close>.
  The interfaces of the source share the field names \<open>id\<close>, \<open>name\<close>, \<open>timestamp\<close>,
  \<open>storeId\<close> and \<open>paymentMethod\<close>; here each carries the prefix of its record
  (\<open>item_id\<close>, \<open>tx_id\<close>, \<open>stock_id\<close>, \<open>user_id\<close>, ...).
  Prices and quantities are whole numbers in the range where JavaScript arithmetic is exact.
\<close>

text \<open>
  The point-of-sale screen reads its menu from \<open>localStorage\<close> as it is, and the owner's
  menu screen writes menu items that have no \<open>stock\<close> property. The stock of a menu item
  is therefore a JavaScript value that need not be a number: \<open>Undefined\<close> for a missing
  property, \<open>NaN\<close> for \<open>undefined - q\<close>, \<open>Null\<close> for what \<open>JSON.stringify\<close> writes
  for \<open>NaN\<close>.
\<close>

datatype jsnumber = Number int | Undefined | NaN | Null

definition toNumber :: "jsnumber \<Rightarrow> int option" where
  \<comment> \<open>the conversion applied by \<open><=\<close>, \<open>>=\<close>, \<open>>\<close> and \<open>-\<close>; \<open>None\<close> stands for \<open>NaN\<close>\<close>
  "toNumber x =
     (case x of Number n \<Rightarrow> Some n | Null \<Rightarrow> Some 0 | Undefined \<Rightarrow> None | NaN \<Rightarrow> None)"

definition jsLessEq :: "jsnumber \<Rightarrow> int \<Rightarrow> bool" where
  \<comment> \<open>\<open>x <= k\<close>: false when \<open>x\<close> converts to \<open>NaN\<close>\<close>
  "jsLessEq x k = (case toNumber x of Some n \<Rightarrow> n \<le> k | None \<Rightarrow> False)"

definition jsGreaterEq :: "int \<Rightarrow> jsnumber \<Rightarrow> bool" where
  \<comment> \<open>\<open>q >= x\<close>\<close>
  "jsGreaterEq q x = (case toNumber x of Some n \<Rightarrow> q \<ge> n | None \<Rightarrow> False)"

definition jsGreater :: "int \<Rightarrow> jsnumber \<Rightarrow> bool" where
  \<comment> \<open>\<open>q > x\<close>\<close>
  "jsGreater q x = (case toNumber x of Some n \<Rightarrow> q > n | None \<Rightarrow> False)"

definition jsMinus :: "jsnumber \<Rightarrow> int \<Rightarrow> jsnumber" where
  \<comment> \<open>\<open>x - q\<close>\<close>
  "jsMinus x q = (case toNumber x of Some n \<Rightarrow> Number (n - q) | None \<Rightarrow> NaN)"

definition jsonNumber :: "jsnumber \<Rightarrow> jsnumber" where
  \<comment> \<open>a property holding \<open>x\<close>, after \<open>JSON.stringify\<close> and \<open>JSON.parse\<close>\<close>
  "jsonNumber x =
     (case x of Number n \<Rightarrow> Number n | Undefined \<Rightarrow> Undefined | NaN \<Rightarrow> Null | Null \<Rightarrow> Null)"

datatype NetworkStatus = online | offline

datatype PaymentMethod = cash | qris

record User =
  user_id :: string
  storeId :: "string option"
  branchId :: "string option"

record MenuItem =
  item_id :: string
  item_name :: string
  description :: string
  cashPrice :: int
  qrisPrice :: int
  categoryId :: string
  categoryName :: string
  stock :: jsnumber

record CartItem = MenuItem +
  quantity :: int

record Transaction =
  tx_id :: string
  items :: "CartItem list"
  total :: int
  tx_paymentMethod :: PaymentMethod
  tx_timestamp :: string
  tx_storeId :: string
  cashierId :: string

record StockItem =
  stock_id :: string
  stock_name :: string
  currentStock :: int
  minimumStock :: int
  initialStock :: int

text \<open>
  The multi-store stock screen declares its own \<open>StockItem\<close>, with the store the item was
  last set for, and a \<open>Store\<close>.
\<close>

record StoreStockItem =
  ssi_id :: string
  ssi_name :: string
  ssi_currentStock :: int
  ssi_minimumStock :: int
  ssi_initialStock :: int
  ssi_storeId :: string


datatype payload =
    TransactionData Transaction
  | StockData "(string \<times> int) list"
  | StartSellingData "string option" "string option" "StockItem list" string
  | StartSellingStoreData string "string option" "StoreStockItem list" string
  | EndSellingData "string option" "string option" string

record operation =
  type :: string
  data :: payload
  timestamp :: "string option"

text \<open>
  What \<open>JSON.parse\<close> gives back after \<open>JSON.stringify\<close>: the value itself, except that a
  stock of \<open>NaN\<close> comes back as \<open>null\<close>.
\<close>

definition jsonItem :: "'a MenuItem_scheme \<Rightarrow> 'a MenuItem_scheme" where
  "jsonItem item = item\<lparr>stock := jsonNumber (stock item)\<rparr>"

definition jsonTransaction :: "Transaction \<Rightarrow> Transaction" where
  "jsonTransaction t = t\<lparr>items := map jsonItem (items t)\<rparr>"

definition jsonPayload :: "payload \<Rightarrow> payload" where
  "jsonPayload p = (case p of TransactionData t \<Rightarrow> TransactionData (jsonTransaction t) | _ \<Rightarrow> p)"

definition jsonOperation :: "operation \<Rightarrow> operation" where
  "jsonOperation operation = operation\<lparr>data := jsonPayload (data operation)\<rparr>"

section \<open>Notifications\<close>

text \<open>
  Every \<open>toast({...})\<close> call of the source is one constructor, named after the toast's
  title and carrying the values interpolated into its description.
\<close>

datatype toast =
    OutOfStock string
  | StockLimitReached jsnumber string
  | CannotProcessTransaction
  | EmptyCart
  | TransactionComplete int
  | ErrorProcessingTransaction
  | HolidayModeActive
  | SyncComplete nat
  | SyncFailed
  | SellingStarted
  | SellingEnded
  | StoreNotSelected
  | SellingStartedFor string
  | CouldNotStartSelling

section \<open>The Local Durable Store\<close>

text \<open>
  \<open>localStorage\<close>, one field per key the modelled code reads or writes. A field holds the
  value whose JSON text is stored under the key, \<open>None\<close> when the key is absent. The keys
  \<open>stockItems-${storeId}\<close>, \<open>sellingStarted-${storeId}\<close> and \<open>holidayMode-${storeId}\<close> are
  families indexed by the rendered store id; \<open>stockItems\<close> and \<open>sellingStartedStores\<close> are
  the keys of the multi-store stock screen.

  The key \<open>transactions\<close> is read inside a \<open>try\<close> block, so its field also tells when the
  stored text cannot be used: \<open>Unusable\<close> is a text that \<open>JSON.parse\<close> rejects or whose
  value has no \<open>push\<close>.
\<close>

datatype 'a stored = Absent | Stored 'a | Unusable

record localStorage =
  ls_pendingOperations :: "operation list option"
  ls_transactions :: "Transaction list stored"
  ls_menuItems :: "MenuItem list option"
  ls_stockItems :: "string \<rightharpoonup> StockItem list"
  ls_sellingStarted :: "string \<rightharpoonup> string"
  ls_stockItems_store :: "StoreStockItem list option"
  ls_sellingStartedStores :: "string list option"
  ls_holidayMode :: "string \<rightharpoonup> string"

section \<open>PwaProvider: the pending-operation queue and the reconciler\<close>

text \<open>
  The provider's state (\<open>networkStatus\<close>, \<open>pendingOperations\<close>), the store it persists to
  and the toasts emitted so far. The screens extend this record with their own state.
\<close>

record world =
  networkStatus :: NetworkStatus
  pendingOperations :: "operation list"
  localStorage :: localStorage
  toasts :: "toast list"

definition emit :: "toast \<Rightarrow> 'a world_scheme \<Rightarrow> 'a world_scheme" where
  "emit t s = s\<lparr>toasts := toasts s @ [t]\<rparr>"

text \<open>
  \<open>setPendingOperations(prev => [...prev, { ...operation, timestamp: new Date().toISOString() }])\<close>;
  \<open>now\<close> is the clock reading.
\<close>

definition addPendingOperation :: "string \<Rightarrow> operation \<Rightarrow> 'a world_scheme \<Rightarrow> 'a world_scheme" where
  "addPendingOperation now operation s =
     s\<lparr>pendingOperations := pendingOperations s @ [operation\<lparr>timestamp := Some now\<rparr>]\<rparr>"

definition clearPendingOperations :: "'a world_scheme \<Rightarrow> 'a world_scheme" where
  "clearPendingOperations s = s\<lparr>pendingOperations := []\<rparr>"

text \<open>
  The body of the \<open>try\<close> block performs no remote call: it emits the success toast and
  clears the queue, so the \<open>catch\<close> branch (the \<open>Sync failed\<close> toast) is never entered.
\<close>

definition processPendingOperations :: "'a world_scheme \<Rightarrow> 'a world_scheme" where
  "processPendingOperations s =
     (if networkStatus s = offline \<or> length (pendingOperations s) = 0 then s
      else clearPendingOperations (emit (SyncComplete (length (pendingOperations s))) s))"

text \<open>
  The effect \<open>useEffect(() => localStorage.setItem('pendingOperations', ...), [pendingOperations])\<close>,
  which React runs after every render in which the queue changed.
\<close>

definition storePendingOperations :: "'a world_scheme \<Rightarrow> 'a world_scheme" where
  "storePendingOperations s =
     s\<lparr>localStorage := (localStorage s)
          \<lparr>ls_pendingOperations := Some (map jsonOperation (pendingOperations s))\<rparr>\<rparr>"

text \<open>
  Mounting the provider over a store \<open>ls\<close>: the state starts with an empty queue; the mount
  effect loads the stored queue when the key is present; the persisting effect of the first
  render writes the (still empty) queue of that render; the re-render caused by the load
  runs the persisting effect again with the loaded queue.
\<close>

definition initialWorld :: "NetworkStatus \<Rightarrow> localStorage \<Rightarrow> world" where
  "initialWorld status ls =
     \<lparr>networkStatus = status, pendingOperations = [], localStorage = ls, toasts = []\<rparr>"

definition loadPendingOperations :: "'a world_scheme \<Rightarrow> 'a world_scheme" where
  "loadPendingOperations s =
     (case ls_pendingOperations (localStorage s) of
        Some storedOperations \<Rightarrow> s\<lparr>pendingOperations := storedOperations\<rparr>
      | None \<Rightarrow> s)"

definition mountProvider :: "NetworkStatus \<Rightarrow> localStorage \<Rightarrow> world" where
  "mountProvider status ls =
     (let s0 = initialWorld status ls;
          loaded = loadPendingOperations s0;
          firstRender = loaded\<lparr>localStorage := localStorage (storePendingOperations s0)\<rparr>
      in storePendingOperations firstRender)"

section \<open>POSInterface: the cart and checkout\<close>

text \<open>
  The state of the screen, the route, and which \<open>localStorage.setItem\<close> calls of the
  screen throw (a full store): \<open>setItemThrows key\<close> says that writing \<open>key\<close> throws.
\<close>

record pos = world +
  menuItems :: "MenuItem list"
  cart :: "CartItem list"
  paymentMethod :: PaymentMethod
  isHolidayMode :: bool
  location :: string
  setItemThrows :: "string \<Rightarrow> bool"

text \<open>The mock menu the screen starts with (the initial value of \<open>useState\<close>).\<close>

definition icedCoffee :: MenuItem where
  "icedCoffee =
     \<lparr>item_id = ''1'', item_name = ''Iced Coffee'', description = ''Cold brewed coffee with ice'',
      cashPrice = 20000, qrisPrice = 22000, categoryId = ''1'', categoryName = ''Drinks'',
      stock = Number 10\<rparr>"

definition hotCoffee :: MenuItem where
  "hotCoffee =
     \<lparr>item_id = ''2'', item_name = ''Hot Coffee'', description = ''Freshly brewed hot coffee'',
      cashPrice = 18000, qrisPrice = 20000, categoryId = ''1'', categoryName = ''Drinks'',
      stock = Number 15\<rparr>"

definition sandwich :: MenuItem where
  "sandwich =
     \<lparr>item_id = ''3'', item_name = ''Sandwich'', description = ''Chicken sandwich with veggies'',
      cashPrice = 25000, qrisPrice = 27500, categoryId = ''2'', categoryName = ''Food'',
      stock = Number 8\<rparr>"

definition frenchFries :: MenuItem where
  "frenchFries =
     \<lparr>item_id = ''4'', item_name = ''French Fries'', description = ''Crispy potato fries'',
      cashPrice = 15000, qrisPrice = 16500, categoryId = ''3'', categoryName = ''Snacks'',
      stock = Number 12\<rparr>"

definition mockMenuItems :: "MenuItem list" where
  "mockMenuItems = [icedCoffee, hotCoffee, sandwich, frenchFries]"

definition orEmpty :: "string option \<Rightarrow> string" where
  \<comment> \<open>\<open>x || ''\<close>\<close>
  "orEmpty x = (case x of None \<Rightarrow> [] | Some v \<Rightarrow> v)"

definition userStoreId :: "User option \<Rightarrow> string option" where
  \<comment> \<open>\<open>user?.storeId\<close>\<close>
  "userStoreId user = (case user of None \<Rightarrow> None | Some u \<Rightarrow> storeId u)"

definition userBranchId :: "User option \<Rightarrow> string option" where
  \<comment> \<open>\<open>user?.branchId\<close>\<close>
  "userBranchId user = (case user of None \<Rightarrow> None | Some u \<Rightarrow> branchId u)"

definition userId :: "User option \<Rightarrow> string option" where
  \<comment> \<open>\<open>user?.id\<close>\<close>
  "userId user = (case user of None \<Rightarrow> None | Some u \<Rightarrow> Some (user_id u))"

definition storeKey :: "User option \<Rightarrow> string" where
  \<comment> \<open>\<open>${user?.storeId}\<close> inside a template string\<close>
  "storeKey user = (case userStoreId user of None \<Rightarrow> ''undefined'' | Some v \<Rightarrow> v)"

text \<open>
  The routes \<open>/pos\<close> and \<open>/pos/history\<close> are siblings, so leaving \<open>/pos\<close> unmounts the
  screen and its state is gone. \<open>unmountPOS\<close> puts the initial values of \<open>useState\<close> in
  its place, which is what the next mount starts from. \<open>mountPOS\<close> is that next mount
  with its effect: the holiday flag of the store and the stored menu are read.
\<close>

definition unmountPOS :: "pos \<Rightarrow> pos" where
  "unmountPOS s =
     s\<lparr>menuItems := mockMenuItems, cart := [], paymentMethod := cash, isHolidayMode := False\<rparr>"

definition navigate :: "string \<Rightarrow> pos \<Rightarrow> pos" where
  "navigate route s = (unmountPOS s)\<lparr>location := route\<rparr>"

definition mountPOS :: "User option \<Rightarrow> pos \<Rightarrow> pos" where
  "mountPOS user s =
     (let holidayMode = (ls_holidayMode (localStorage s) (storeKey user) = Some ''true'');
          s1 = (unmountPOS s)\<lparr>location := ''/pos'', isHolidayMode := holidayMode\<rparr>;
          s2 = (if holidayMode then emit HolidayModeActive s1 else s1)
      in case ls_menuItems (localStorage s) of
           Some savedMenuItems \<Rightarrow> s2\<lparr>menuItems := savedMenuItems\<rparr>
         | None \<Rightarrow> s2)"

definition asCartItem :: "MenuItem \<Rightarrow> int \<Rightarrow> CartItem" where
  \<comment> \<open>\<open>{ ...item, quantity: q }\<close>\<close>
  "asCartItem item q =
     \<lparr>item_id = item_id item, item_name = item_name item, description = description item,
      cashPrice = cashPrice item, qrisPrice = qrisPrice item, categoryId = categoryId item,
      categoryName = categoryName item, stock = stock item, quantity = q\<rparr>"

definition addToCart :: "MenuItem \<Rightarrow> pos \<Rightarrow> pos" where
  "addToCart item s =
     (if jsLessEq (stock item) 0 then emit (OutOfStock (item_name item)) s
      else
        (case find (\<lambda>cartItem. item_id cartItem = item_id item) (cart s) of
           Some existingItem \<Rightarrow>
             if jsGreaterEq (quantity existingItem) (stock item)
             then emit (StockLimitReached (stock item) (item_name item)) s
             else s\<lparr>cart := map (\<lambda>cartItem.
                      if item_id cartItem = item_id item
                      then cartItem\<lparr>quantity := quantity cartItem + 1\<rparr>
                      else cartItem) (cart s)\<rparr>
         | None \<Rightarrow> s\<lparr>cart := cart s @ [asCartItem item 1]\<rparr>))"

definition removeFromCart :: "string \<Rightarrow> pos \<Rightarrow> pos" where
  "removeFromCart itemId s = s\<lparr>cart := filter (\<lambda>item. item_id item \<noteq> itemId) (cart s)\<rparr>"

definition updateCartItemQuantity :: "string \<Rightarrow> int \<Rightarrow> pos \<Rightarrow> pos" where
  "updateCartItemQuantity itemId newQuantity s =
     (if newQuantity \<le> 0 then removeFromCart itemId s
      else
        (case find (\<lambda>item. item_id item = itemId) (menuItems s) of
           Some item \<Rightarrow>
             if jsGreater newQuantity (stock item)
             then emit (StockLimitReached (stock item) (item_name item)) s
             else s\<lparr>cart := map (\<lambda>item.
                      if item_id item = itemId then item\<lparr>quantity := newQuantity\<rparr> else item)
                    (cart s)\<rparr>
         | None \<Rightarrow>
             s\<lparr>cart := map (\<lambda>item.
                      if item_id item = itemId then item\<lparr>quantity := newQuantity\<rparr> else item)
                    (cart s)\<rparr>))"

definition clearCart :: "pos \<Rightarrow> pos" where
  "clearCart s = s\<lparr>cart := []\<rparr>"

text \<open>
  \<open>cart.reduce(...)\<close>; the sum of whole prices times quantities, exact as long as it stays
  below \<open>2^53\<close>.
\<close>

definition calculateTotal :: "pos \<Rightarrow> int" where
  "calculateTotal s =
     foldl (\<lambda>total item.
              total + (if paymentMethod s = cash then cashPrice item else qrisPrice item)
                      * quantity item)
           0 (cart s)"

text \<open>The decimal rendering of \<open>Date.now()\<close> inside the template \<open>TR-${Date.now()}\<close>.\<close>

fun decimal :: "nat \<Rightarrow> string" where
  "decimal n =
     (if n < 10 then [''0123456789'' ! n]
      else decimal (n div 10) @ [''0123456789'' ! (n mod 10)])"

definition newTransaction :: "nat \<Rightarrow> string \<Rightarrow> User option \<Rightarrow> pos \<Rightarrow> Transaction" where
  "newTransaction nowMs isoNow user s =
     \<lparr>tx_id = ''TR-'' @ decimal nowMs,
      items = cart s,
      total = calculateTotal s,
      tx_paymentMethod = paymentMethod s,
      tx_timestamp = isoNow,
      tx_storeId = orEmpty (userStoreId user),
      cashierId = orEmpty (userId user)\<rparr>"

definition updatedMenuItems :: "pos \<Rightarrow> MenuItem list" where
  "updatedMenuItems s =
     map (\<lambda>item.
            case find (\<lambda>cartItem. item_id cartItem = item_id item) (cart s) of
              Some cartItem \<Rightarrow> item\<lparr>stock := jsMinus (stock item) (quantity cartItem)\<rparr>
            | None \<Rightarrow> item)
         (menuItems s)"

text \<open>
  \<open>JSON.parse(localStorage.getItem('transactions') || '[]')\<close> followed by \<open>push\<close>:
  \<open>None\<close> when one of them throws.
\<close>

definition savedTransactions :: "Transaction list stored \<Rightarrow> Transaction list option" where
  "savedTransactions field =
     (case field of Absent \<Rightarrow> Some [] | Stored saved \<Rightarrow> Some saved | Unusable \<Rightarrow> None)"

text \<open>The two \<open>addPendingOperation\<close> calls of the offline branch.\<close>

definition queueForSync :: "string \<Rightarrow> string \<Rightarrow> Transaction \<Rightarrow> pos \<Rightarrow> pos" where
  "queueForSync isoOpA isoOpB transaction s =
     (if networkStatus s = offline
      then addPendingOperation isoOpB
             \<lparr>type = ''UPDATE_STOCK'',
              data = StockData (map (\<lambda>item. (item_id item, quantity item)) (cart s)),
              timestamp = None\<rparr>
             (addPendingOperation isoOpA
                \<lparr>type = ''CREATE_TRANSACTION'',
                 data = TransactionData transaction,
                 timestamp = None\<rparr> s)
      else s)"

text \<open>
  \<open>handleCheckout\<close>. \<open>nowMs\<close> is \<open>Date.now()\<close>, \<open>isoNow\<close> the transaction's timestamp,
  \<open>isoOpA\<close> and \<open>isoOpB\<close> the clock readings of the two \<open>addPendingOperation\<close> calls.
  Inside the \<open>try\<close> block the stored transactions may be unusable and either \<open>setItem\<close>
  may throw; each ends in the \<open>catch\<close> branch, which emits the error toast and leaves what
  was written before (the transactions, when the second \<open>setItem\<close> throws). The last
  statement, \<open>navigate\<close>, leaves the screen.
\<close>

definition handleCheckout ::
  "nat \<Rightarrow> string \<Rightarrow> string \<Rightarrow> string \<Rightarrow> User option \<Rightarrow> pos \<Rightarrow> pos" where
  "handleCheckout nowMs isoNow isoOpA isoOpB user s =
     (if isHolidayMode s then emit CannotProcessTransaction s
      else if length (cart s) = 0 then emit EmptyCart s
      else
        (let transaction = newTransaction nowMs isoNow user s;
             updated = updatedMenuItems s
         in case savedTransactions (ls_transactions (localStorage s)) of
              None \<Rightarrow> emit ErrorProcessingTransaction s
            | Some saved \<Rightarrow>
                if setItemThrows s ''transactions'' then emit ErrorProcessingTransaction s
                else
                  (let s1 = s\<lparr>localStorage := (localStorage s)
                              \<lparr>ls_transactions :=
                                 Stored (map jsonTransaction (saved @ [transaction]))\<rparr>\<rparr>
                   in if setItemThrows s ''menuItems'' then emit ErrorProcessingTransaction s1
                      else
                        (let s2 = s1\<lparr>localStorage := (localStorage s1)
                                    \<lparr>ls_menuItems := Some (map jsonItem updated)\<rparr>\<rparr>;
                             s3 = queueForSync isoOpA isoOpB transaction s2;
                             s4 = s3\<lparr>menuItems := updated\<rparr>;
                             s5 = emit (TransactionComplete (calculateTotal s)) s4
                         in navigate (''/pos/history?transactionId='' @ tx_id transaction) s5))))"

text \<open>
  The owner's menu screen builds a new menu item from its form, an id and the name of the
  selected category, and appends it to the stored menu. The item has no \<open>stock\<close> property.
\<close>

definition newMenuItem :: "nat \<Rightarrow> string \<Rightarrow> string \<Rightarrow> int \<Rightarrow> int \<Rightarrow> string \<Rightarrow> string \<Rightarrow> MenuItem" where
  "newMenuItem nowMs name descr cash' qris' category categoryName' =
     \<lparr>item_id = ''menu-'' @ decimal nowMs, item_name = name, description = descr,
      cashPrice = cash', qrisPrice = qris', categoryId = category,
      categoryName = categoryName', stock = Undefined\<rparr>"

definition storeNewMenuItem :: "MenuItem \<Rightarrow> localStorage \<Rightarrow> localStorage" where
  \<comment> \<open>\<open>localStorage.setItem('menuItems', JSON.stringify([...menuItems, newMenuItem]))\<close>,
     \<open>menuItems\<close> being the stored menu the screen loaded\<close>
  "storeNewMenuItem item ls =
     ls\<lparr>ls_menuItems :=
          Some (map jsonItem ((case ls_menuItems ls of None \<Rightarrow> [] | Some saved \<Rightarrow> saved) @ [item]))\<rparr>"

section \<open>Replaying queued operations\<close>

text \<open>
  Modelled from the spec: the remote system and the replay of a queued operation against
  it, which the source does not have (its reconciler replays nothing). The spec has the
  reconciler drain the queue entry by entry in FIFO order and translate each entry into the
  corresponding remote mutation, so that the remote system converges to the same final
  state as the local one. A create-transaction operation adds its transaction to the
  transactions; an update-stock operation decreases, entry by entry, the stock of the menu
  item with the entry's id by the entry's quantity. The other kinds are not described and
  leave the state as it is.
\<close>

record replica =
  replicaTransactions :: "Transaction list"
  replicaMenu :: "MenuItem list"

definition decreaseStock :: "string \<times> int \<Rightarrow> MenuItem list \<Rightarrow> MenuItem list" where
  \<comment> \<open>Modelled from the spec: one entry of an update-stock operation\<close>
  "decreaseStock entry menu =
     map (\<lambda>item. if item_id item = fst entry
                  then item\<lparr>stock := jsMinus (stock item) (snd entry)\<rparr>
                  else item) menu"

definition replayOperation :: "operation \<Rightarrow> replica \<Rightarrow> replica" where
  \<comment> \<open>Modelled from the spec: the remote mutation of one queued operation\<close>
  "replayOperation operation r =
     (case data operation of
        TransactionData t \<Rightarrow>
          if type operation = ''CREATE_TRANSACTION''
          then r\<lparr>replicaTransactions := replicaTransactions r @ [t]\<rparr>
          else r
      | StockData entries \<Rightarrow>
          if type operation = ''UPDATE_STOCK''
          then r\<lparr>replicaMenu := foldl (\<lambda>menu entry. decreaseStock entry menu) (replicaMenu r) entries\<rparr>
          else r
      | _ \<Rightarrow> r)"

definition replayQueue :: "operation list \<Rightarrow> replica \<Rightarrow> replica" where
  \<comment> \<open>Modelled from the spec: the drain in FIFO order\<close>
  "replayQueue queue r = foldl (\<lambda>r' operation. replayOperation operation r') r queue"

section \<open>StockControl: starting and ending the selling day\<close>

record stockControl = world +
  stockItems :: "StockItem list"
  isSellingStarted :: bool
  showStartSellingDialog :: bool
  showEndSellingDialog :: bool

definition saveStock :: "string \<Rightarrow> StockItem list \<Rightarrow> string \<Rightarrow> localStorage \<Rightarrow> localStorage" where
  \<comment> \<open>the two \<open>setItem\<close> calls on \<open>stockItems-${storeId}\<close> and \<open>sellingStarted-${storeId}\<close>\<close>
  "saveStock key updatedItems flag ls =
     ls\<lparr>ls_stockItems := (ls_stockItems ls)(key \<mapsto> updatedItems),
        ls_sellingStarted := (ls_sellingStarted ls)(key \<mapsto> flag)\<rparr>"

text \<open>
  \<open>isoNow\<close> is the timestamp written into the operation's payload, \<open>isoOp\<close> the clock reading
  of \<open>addPendingOperation\<close>.
\<close>

definition handleStartSelling :: "string \<Rightarrow> string \<Rightarrow> User option \<Rightarrow> stockControl \<Rightarrow> stockControl" where
  "handleStartSelling isoNow isoOp user s =
     (let updatedItems = map (\<lambda>item. item\<lparr>currentStock := initialStock item\<rparr>) (stockItems s);
          s1 = s\<lparr>stockItems := updatedItems, isSellingStarted := True,
                 localStorage := saveStock (storeKey user) updatedItems ''true'' (localStorage s)\<rparr>;
          s2 = (if networkStatus s = offline
                then addPendingOperation isoOp
                       \<lparr>type = ''START_SELLING'',
                        data = StartSellingData (userStoreId user) (userBranchId user) updatedItems isoNow,
                        timestamp = None\<rparr> s1
                else s1)
      in (emit SellingStarted s2)\<lparr>showStartSellingDialog := False\<rparr>)"

definition handleEndSelling :: "string \<Rightarrow> string \<Rightarrow> User option \<Rightarrow> stockControl \<Rightarrow> stockControl" where
  "handleEndSelling isoNow isoOp user s =
     (let updatedItems = map (\<lambda>item. item\<lparr>currentStock := 0\<rparr>) (stockItems s);
          s1 = s\<lparr>stockItems := updatedItems, isSellingStarted := False,
                 localStorage := saveStock (storeKey user) updatedItems ''false'' (localStorage s)\<rparr>;
          s2 = (if networkStatus s = offline
                then addPendingOperation isoOp
                       \<lparr>type = ''END_SELLING'',
                        data = EndSellingData (userStoreId user) (userBranchId user) isoNow,
                        timestamp = None\<rparr> s1
                else s1)
      in (emit SellingEnded s2)\<lparr>showEndSellingDialog := False\<rparr>)"

section \<open>The multi-store stock screen and its remote table\<close>

text \<open>
  The screen that keeps one stock list for all stores of the branch and records each
  selling day in the remote table \<open>store_stocks\<close>. A row of the table:
\<close>

record StoreStock =
  row_id :: string
  store_id :: string
  stock_item_id :: string
  row_quantity :: int
  is_active :: bool
  selling_date :: string












text \<open>
  A well-formed table: row ids are distinct (\<open>id\<close> is the primary key) and no two rows
  record the same stock item of the same store on the same date.
\<close>

definition sessionKey :: "StoreStock \<Rightarrow> string \<times> string \<times> string" where
  "sessionKey row = (store_id row, stock_item_id row, selling_date row)"



section \<open>Sequences of cart calls\<close>

datatype cartCall = AddToCart MenuItem | UpdateQuantity string int

fun runCall :: "cartCall \<Rightarrow> pos \<Rightarrow> pos" where
  "runCall (AddToCart item) s = addToCart item s"
| "runCall (UpdateQuantity itemId newQuantity) s = updateCartItemQuantity itemId newQuantity s"

fun runCalls :: "cartCall list \<Rightarrow> pos \<Rightarrow> pos" where
  "runCalls [] s = s"
| "runCalls (c # cs) s = runCalls cs (runCall c s)"

text \<open>
  Every cart line refers to a menu item and asks for no more than that item's stock
  (\<open>quantity <= stock\<close>, which is false for a stock that is not a number).
\<close>

definition jsAtMost :: "int \<Rightarrow> jsnumber \<Rightarrow> bool" where
  \<comment> \<open>\<open>q <= x\<close>\<close>
  "jsAtMost q x = (case toNumber x of Some n \<Rightarrow> q \<le> n | None \<Rightarrow> False)"

definition withinStock :: "MenuItem list \<Rightarrow> CartItem list \<Rightarrow> bool" where
  "withinStock menu lines =
     list_all (\<lambda>line. case find (\<lambda>m. item_id m = item_id line) menu of
                        Some m \<Rightarrow> jsAtMost (quantity line) (stock m)
                      | None \<Rightarrow> False) lines"

text \<open>
  The screen calls \<open>addToCart\<close> with an element of \<open>menuItems\<close> (the button of a menu
  card); \<open>updateCartItemQuantity\<close> takes any id and any quantity.
\<close>

fun fromMenu :: "MenuItem list \<Rightarrow> cartCall \<Rightarrow> bool" where
  "fromMenu menu (AddToCart item) = (item \<in> set menu)"
| "fromMenu menu (UpdateQuantity itemId newQuantity) = True"

definition cartInv :: "MenuItem list \<Rightarrow> CartItem list \<Rightarrow> bool" where
  "cartInv menu lines = (distinct (map item_id lines) \<and> withinStock menu lines)"

section \<open>Concrete states\<close>

definition emptyStorage :: localStorage where
  "emptyStorage =
     \<lparr>ls_pendingOperations = None, ls_transactions = Absent, ls_menuItems = None,
      ls_stockItems = Map.empty, ls_sellingStarted = Map.empty,
      ls_stockItems_store = None, ls_sellingStartedStores = None,
      ls_holidayMode = Map.empty\<rparr>"

definition exOperation :: "string \<Rightarrow> operation" where
  "exOperation t = \<lparr>type = t, data = StockData [(''1'', 2)], timestamp = Some ''caller''\<rparr>"

definition exWorld :: "NetworkStatus \<Rightarrow> operation list \<Rightarrow> world" where
  "exWorld status queue =
     \<lparr>networkStatus = status, pendingOperations = queue, localStorage = emptyStorage,
      toasts = []\<rparr>"

definition exPos :: "NetworkStatus \<Rightarrow> bool \<Rightarrow> CartItem list \<Rightarrow> pos" where
  "exPos status holiday lines =
     \<lparr>networkStatus = status, pendingOperations = [], localStorage = emptyStorage, toasts = [],
      menuItems = [icedCoffee, sandwich], cart = lines, paymentMethod = cash,
      isHolidayMode = holiday, location = ''/pos'', setItemThrows = (\<lambda>key. False)\<rparr>"

definition exStockItems :: "StockItem list" where
  "exStockItems =
     [\<lparr>stock_id = ''1'', stock_name = ''Iced Coffee'', currentStock = 3, minimumStock = 5,
       initialStock = 10\<rparr>,
      \<lparr>stock_id = ''3'', stock_name = ''Sandwich'', currentStock = 0, minimumStock = 3,
       initialStock = 8\<rparr>]"

definition exManager :: User where
  "exManager = \<lparr>user_id = ''2'', storeId = Some ''1'', branchId = Some ''1''\<rparr>"

definition exStockControl :: "NetworkStatus \<Rightarrow> bool \<Rightarrow> stockControl" where
  "exStockControl status started =
     \<lparr>networkStatus = status, pendingOperations = [], localStorage = emptyStorage, toasts = [],
      stockItems = exStockItems, isSellingStarted = started, showStartSellingDialog = True,
      showEndSellingDialog = True\<rparr>"





definition exTea :: MenuItem where
  "exTea = newMenuItem 17 ''Tea'' ''Hot tea'' 5000 5500 ''1'' ''Drinks''"

definition exCashierPos :: pos where
  "exCashierPos =
     mountPOS None ((exPos online False [])\<lparr>localStorage := storeNewMenuItem exTea emptyStorage\<rparr>)"

definition exTeaCalls :: "cartCall list" where
  "exTeaCalls = [AddToCart exTea, AddToCart exTea, UpdateQuantity (item_id exTea) 1000]"

definition exFullPos :: pos where
  "exFullPos =
     (exPos online False [asCartItem icedCoffee 3])\<lparr>setItemThrows := (\<lambda>key. key = ''menuItems'')\<rparr>"

definition exSecondSale :: pos where
  "exSecondSale =
     runCalls [AddToCart (icedCoffee\<lparr>stock := Number 7\<rparr>), AddToCart (icedCoffee\<lparr>stock := Number 7\<rparr>)]
       (mountPOS None
          (handleCheckout 17 ''t0'' ''t1'' ''t2'' None (exPos online False [asCartItem icedCoffee 3])))"

definition exStoredWorld :: world where
  "exStoredWorld = storePendingOperations (exWorld offline [exOperation ''A''])"

section \<open>The pending-operation queue\<close>

text \<open>
  C9. \<open>addPendingOperation\<close> appends exactly one entry at the tail of the queue: the given
  operation with its top-level \<open>timestamp\<close> set to the enqueue time, whatever timestamp the
  caller supplied. The entries queued before, and their order, are unchanged, and so is
  the rest of the provider's state.
\<close>

theorem addPendingOperation_appends:
  "butlast (pendingOperations (addPendingOperation now operation s)) = pendingOperations s
   \<and> last (pendingOperations (addPendingOperation now operation s))
       = \<lparr>type = type operation, data = data operation, timestamp = Some now\<rparr>
   \<and> length (pendingOperations (addPendingOperation now operation s))
       = Suc (length (pendingOperations s))
   \<and> networkStatus (addPendingOperation now operation s) = networkStatus s
   \<and> localStorage (addPendingOperation now operation s) = localStorage s
   \<and> toasts (addPendingOperation now operation s) = toasts s"
  by (simp add: addPendingOperation_def)

text \<open>
  C10. Called while the network status is offline, or while the queue is empty,
  \<open>processPendingOperations\<close> returns the state as it was: no toast is emitted and the
  queue is unchanged.
\<close>

theorem processPendingOperations_noop:
  "networkStatus s = offline \<or> pendingOperations s = [] \<Longrightarrow> processPendingOperations s = s"
  by (auto simp: processPendingOperations_def)

theorem processPendingOperations_noop_witness:
  "(networkStatus (exWorld offline [exOperation ''UPDATE_STOCK'']) = offline
      \<or> pendingOperations (exWorld offline [exOperation ''UPDATE_STOCK'']) = [])
   \<and> pendingOperations (processPendingOperations (exWorld offline [exOperation ''UPDATE_STOCK'']))
       = [exOperation ''UPDATE_STOCK'']
   \<and> toasts (processPendingOperations (exWorld offline [exOperation ''UPDATE_STOCK''])) = []
   \<and> processPendingOperations (exWorld online []) = exWorld online []"
  using processPendingOperations_noop [of "exWorld offline [exOperation ''UPDATE_STOCK'']"]
        processPendingOperations_noop [of "exWorld online []"]
  by (simp add: exWorld_def)

section \<open>The reconciler\<close>

text \<open>
  C1 (as amended). The reconciler performs no remote call and has no failing entry: when
  the network status is online and the queue holds N > 0 entries, it emits one
  \<open>Sync complete\<close> toast reporting N operations and clears the whole queue at once.
\<close>

theorem processPendingOperations_clears_all:
  "networkStatus s = online \<Longrightarrow> pendingOperations s \<noteq> [] \<Longrightarrow>
   pendingOperations (processPendingOperations s) = []
   \<and> toasts (processPendingOperations s) = toasts s @ [SyncComplete (length (pendingOperations s))]"
  by (simp add: processPendingOperations_def clearPendingOperations_def emit_def)

theorem processPendingOperations_clears_all_witness:
  "networkStatus (exWorld online [exOperation ''A'', exOperation ''B'', exOperation ''C'']) = online
   \<and> pendingOperations (exWorld online [exOperation ''A'', exOperation ''B'', exOperation ''C'']) \<noteq> []
   \<and> pendingOperations (processPendingOperations
         (exWorld online [exOperation ''A'', exOperation ''B'', exOperation ''C''])) = []
   \<and> toasts (processPendingOperations
         (exWorld online [exOperation ''A'', exOperation ''B'', exOperation ''C''])) = [SyncComplete 3]"
  using processPendingOperations_clears_all
    [of "exWorld online [exOperation ''A'', exOperation ''B'', exOperation ''C'']"]
  by (simp add: exWorld_def)

text \<open>
  C1 as stated fails. With three entries queued and a remote that would fail on the second
  one (k = 2), the claim leaves entries 2 and 3 in the queue and reports the failure; the
  reconciler, which never consults a remote, empties the queue and reports success.
\<close>

theorem reconcile_partial_failure_counterexample:
  "pendingOperations (processPendingOperations
      (exWorld online [exOperation ''A'', exOperation ''B'', exOperation ''C'']))
     \<noteq> drop (2 - 1) [exOperation ''A'', exOperation ''B'', exOperation ''C'']
   \<and> toasts (processPendingOperations
      (exWorld online [exOperation ''A'', exOperation ''B'', exOperation ''C''])) \<noteq> [SyncFailed]"
  by (simp add: processPendingOperations_def clearPendingOperations_def emit_def exWorld_def)

section \<open>Checkout preconditions\<close>

text \<open>
  C5. When the store is in holiday mode, or the cart is empty, \<open>handleCheckout\<close> only emits
  the error toast (\<open>Cannot process transaction\<close> for holiday mode, checked first, otherwise
  \<open>Empty cart\<close>): the menu items and their stock, the stored data (the persisted
  transactions among them), the cart, the queue and the route are unchanged.
\<close>

theorem handleCheckout_blocked:
  "isHolidayMode s \<or> cart s = [] \<Longrightarrow>
   toasts (handleCheckout nowMs isoNow isoOpA isoOpB user s)
     = toasts s @ [if isHolidayMode s then CannotProcessTransaction else EmptyCart]
   \<and> menuItems (handleCheckout nowMs isoNow isoOpA isoOpB user s) = menuItems s
   \<and> localStorage (handleCheckout nowMs isoNow isoOpA isoOpB user s) = localStorage s
   \<and> cart (handleCheckout nowMs isoNow isoOpA isoOpB user s) = cart s
   \<and> pendingOperations (handleCheckout nowMs isoNow isoOpA isoOpB user s) = pendingOperations s
   \<and> location (handleCheckout nowMs isoNow isoOpA isoOpB user s) = location s"
  by (auto simp: handleCheckout_def emit_def)

theorem handleCheckout_blocked_witness:
  "(isHolidayMode (exPos offline True [asCartItem icedCoffee 3])
      \<or> cart (exPos offline True [asCartItem icedCoffee 3]) = [])
   \<and> toasts (handleCheckout 17 ''t0'' ''t1'' ''t2'' None (exPos offline True [asCartItem icedCoffee 3]))
       = [CannotProcessTransaction]
   \<and> cart (handleCheckout 17 ''t0'' ''t1'' ''t2'' None (exPos offline True [asCartItem icedCoffee 3]))
       = [asCartItem icedCoffee 3]
   \<and> menuItems (handleCheckout 17 ''t0'' ''t1'' ''t2'' None (exPos offline True [asCartItem icedCoffee 3]))
       = [icedCoffee, sandwich]
   \<and> localStorage (handleCheckout 17 ''t0'' ''t1'' ''t2'' None (exPos offline True [asCartItem icedCoffee 3]))
       = emptyStorage
   \<and> toasts (handleCheckout 17 ''t0'' ''t1'' ''t2'' None (exPos offline False [])) = [EmptyCart]
   \<and> pendingOperations (handleCheckout 17 ''t0'' ''t1'' ''t2'' None (exPos offline False [])) = []"
  using handleCheckout_blocked [where s = "exPos offline True [asCartItem icedCoffee 3]"
      and nowMs = 17 and isoNow = "''t0''" and isoOpA = "''t1''" and isoOpB = "''t2''" and user = None]
    handleCheckout_blocked [where s = "exPos offline False []"
      and nowMs = 17 and isoNow = "''t0''" and isoOpA = "''t1''" and isoOpB = "''t2''" and user = None]
  by (simp add: exPos_def)

section \<open>The cart and the stock\<close>

text \<open>
  When every menu item carries a stock that converts to a number, the guards of
  \<open>addToCart\<close> and \<open>updateCartItemQuantity\<close> keep every cart quantity within the stock
  of its item, from an empty cart and through any sequence of calls.
\<close>

lemma find_in_distinct:
  "distinct (map f xs) \<Longrightarrow> x \<in> set xs \<Longrightarrow> find (\<lambda>m. f m = f x) xs = Some x"
  by (induction xs) (auto simp: image_iff)

lemma find_SomeD: "find P xs = Some x \<Longrightarrow> P x \<and> x \<in> set xs"
  by (induction xs) (auto split: if_splits)

lemma find_None_set: "find P xs = None \<Longrightarrow> x \<in> set xs \<Longrightarrow> \<not> P x"
  by (induction xs) (auto split: if_splits)

lemma menuItems_addToCart [simp]: "menuItems (addToCart item s) = menuItems s"
  by (simp add: addToCart_def emit_def split: option.splits)

lemma menuItems_updateCartItemQuantity [simp]:
  "menuItems (updateCartItemQuantity itemId n s) = menuItems s"
  by (simp add: updateCartItemQuantity_def removeFromCart_def emit_def split: option.splits)

lemma menuItems_runCall [simp]: "menuItems (runCall c s) = menuItems s"
  by (cases c) simp_all

lemma menuItems_runCalls [simp]: "menuItems (runCalls cs s) = menuItems s"
  by (induction cs arbitrary: s) simp_all

lemma item_id_bump [simp]:
  "item_id \<circ> (\<lambda>c::CartItem. if item_id c = k then c\<lparr>quantity := g c\<rparr> else c) = item_id"
  by (auto simp: fun_eq_iff)

lemma withinStock_bump:
  assumes "withinStock menu lines"
    and "\<forall>line \<in> set lines. item_id line = k \<longrightarrow>
          (\<exists>m. find (\<lambda>m. item_id m = k) menu = Some m \<and> jsAtMost (g line) (stock m))"
  shows "withinStock menu
           (map (\<lambda>c. if item_id c = k then c\<lparr>quantity := g c\<rparr> else c) lines)"
  unfolding withinStock_def list_all_iff
proof (intro ballI)
  fix x
  assume "x \<in> set (map (\<lambda>c. if item_id c = k then c\<lparr>quantity := g c\<rparr> else c) lines)"
  then obtain line where line: "line \<in> set lines"
    and x: "x = (if item_id line = k then line\<lparr>quantity := g line\<rparr> else line)"
    by auto
  show "case find (\<lambda>m. item_id m = item_id x) menu of
          None \<Rightarrow> False | Some m \<Rightarrow> jsAtMost (quantity x) (stock m)"
  proof (cases "item_id line = k")
    case True
    then obtain m where "find (\<lambda>m. item_id m = k) menu = Some m" "jsAtMost (g line) (stock m)"
      using assms(2) line by blast
    then show ?thesis using True x by (simp split: option.splits)
  next
    case False
    then have "x = line" using x by simp
    moreover have "case find (\<lambda>m. item_id m = item_id line) menu of
          None \<Rightarrow> False | Some m \<Rightarrow> jsAtMost (quantity line) (stock m)"
      using assms(1) line unfolding withinStock_def list_all_iff by blast
    ultimately show ?thesis by (simp split: option.splits)
  qed
qed

lemma cartInv_addToCart:
  assumes "distinct (map item_id (menuItems s))" and "item \<in> set (menuItems s)"
    and "cartInv (menuItems s) (cart s)"
    and counted: "\<forall>m \<in> set (menuItems s). toNumber (stock m) \<noteq> None"
  shows "cartInv (menuItems s) (cart (addToCart item s))"
proof -
  have fnd: "find (\<lambda>m. item_id m = item_id item) (menuItems s) = Some item"
    using assms(1,2) by (rule find_in_distinct)
  obtain n where n: "toNumber (stock item) = Some n"
    using counted assms(2) by auto
  show ?thesis
  proof (cases "n \<le> 0")
    case True
    then show ?thesis using assms(3) n by (simp add: addToCart_def emit_def jsLessEq_def)
  next
    case pos: False
    show ?thesis
    proof (cases "find (\<lambda>cartItem. item_id cartItem = item_id item) (cart s)")
      case None
      then have "item_id item \<notin> item_id ` set (cart s)"
        by (auto dest: find_None_set)
      then show ?thesis
        using assms(3) pos None fnd n
        by (simp add: addToCart_def cartInv_def withinStock_def asCartItem_def jsLessEq_def
            jsAtMost_def)
    next
      case (Some e)
      then have e: "item_id e = item_id item" "e \<in> set (cart s)"
        by (auto dest: find_SomeD)
      show ?thesis
      proof (cases "quantity e \<ge> n")
        case True
        then show ?thesis
          using assms(3) pos Some n
          by (simp add: addToCart_def emit_def jsLessEq_def jsGreaterEq_def)
      next
        case False
        have uniq: "c = e" if "c \<in> set (cart s)" "item_id c = item_id item" for c
          using that e assms(3) by (auto simp: cartInv_def distinct_map inj_on_def)
        have "withinStock (menuItems s)
                (map (\<lambda>c. if item_id c = item_id item then c\<lparr>quantity := quantity c + 1\<rparr> else c)
                   (cart s))"
        proof (rule withinStock_bump)
          show "withinStock (menuItems s) (cart s)"
            using assms(3) by (simp add: cartInv_def)
          show "\<forall>line \<in> set (cart s). item_id line = item_id item \<longrightarrow>
                  (\<exists>m. find (\<lambda>m. item_id m = item_id item) (menuItems s) = Some m
                       \<and> jsAtMost (quantity line + 1) (stock m))"
            using fnd uniq False n by (auto simp: jsAtMost_def)
        qed
        then show ?thesis
          using assms(3) pos Some False n
          by (simp add: addToCart_def cartInv_def jsLessEq_def jsGreaterEq_def)
      qed
    qed
  qed
qed

lemma cartInv_updateCartItemQuantity:
  assumes "cartInv (menuItems s) (cart s)"
    and counted: "\<forall>m \<in> set (menuItems s). toNumber (stock m) \<noteq> None"
  shows "cartInv (menuItems s) (cart (updateCartItemQuantity itemId n s))"
proof (cases "n \<le> 0")
  case True
  then show ?thesis
    using assms(1)
    by (auto simp: updateCartItemQuantity_def removeFromCart_def cartInv_def withinStock_def
        list_all_iff distinct_map_filter)
next
  case pos: False
  show ?thesis
  proof (cases "find (\<lambda>item. item_id item = itemId) (menuItems s)")
    case None
    have "withinStock (menuItems s)
            (map (\<lambda>c. if item_id c = itemId then c\<lparr>quantity := n\<rparr> else c) (cart s))"
      using assms(1) None
      by (auto simp: cartInv_def withinStock_def list_all_iff split: option.splits)
    then show ?thesis
      using assms(1) pos None
      by (simp add: updateCartItemQuantity_def cartInv_def)
  next
    case (Some m)
    show ?thesis
    proof (cases "jsGreater n (stock m)")
      case True
      then show ?thesis using assms pos Some by (simp add: updateCartItemQuantity_def emit_def)
    next
      case False
      have "m \<in> set (menuItems s)"
        using Some by (auto dest: find_SomeD)
      then obtain k where k: "toNumber (stock m) = Some k"
        using counted by auto
      have "withinStock (menuItems s)
              (map (\<lambda>c. if item_id c = itemId then c\<lparr>quantity := n\<rparr> else c) (cart s))"
      proof (rule withinStock_bump)
        show "withinStock (menuItems s) (cart s)"
          using assms(1) by (simp add: cartInv_def)
        show "\<forall>line \<in> set (cart s). item_id line = itemId \<longrightarrow>
                (\<exists>m. find (\<lambda>m. item_id m = itemId) (menuItems s) = Some m
                     \<and> jsAtMost n (stock m))"
          using Some False k by (auto simp: jsAtMost_def jsGreater_def)
      qed
      then show ?thesis
        using assms(1) pos Some False
        by (simp add: updateCartItemQuantity_def cartInv_def)
    qed
  qed
qed

lemma cartInv_runCalls:
  "distinct (map item_id (menuItems s)) \<Longrightarrow> list_all (fromMenu (menuItems s)) calls \<Longrightarrow>
   \<forall>m \<in> set (menuItems s). toNumber (stock m) \<noteq> None \<Longrightarrow>
   cartInv (menuItems s) (cart s) \<Longrightarrow> cartInv (menuItems s) (cart (runCalls calls s))"
proof (induction calls arbitrary: s)
  case Nil
  then show ?case by simp
next
  case (Cons c cs)
  have step: "cartInv (menuItems s) (cart (runCall c s))"
  proof (cases c)
    case (AddToCart item)
    then show ?thesis using Cons.prems by (simp add: cartInv_addToCart)
  next
    case (UpdateQuantity itemId n)
    then show ?thesis using Cons.prems by (simp add: cartInv_updateCartItemQuantity)
  qed
  have "cartInv (menuItems (runCall c s)) (cart (runCalls cs (runCall c s)))"
    using Cons.prems step by (intro Cons.IH) simp_all
  then show ?case by simp
qed




lemma cart_within_counted_stock:
  assumes "distinct (map item_id (menuItems s))" and "cart s = []"
    and "list_all (fromMenu (menuItems s)) calls"
    and "\<forall>m \<in> set (menuItems s). toNumber (stock m) \<noteq> None"
  shows "\<forall>k \<le> length calls.
           withinStock (menuItems (runCalls (take k calls) s)) (cart (runCalls (take k calls) s))"
proof (intro allI impI)
  fix k
  have inv0: "cartInv (menuItems s) (cart s)"
    using assms(2) by (simp add: cartInv_def withinStock_def)
  have "list_all (fromMenu (menuItems s)) (take k calls)"
    using assms(3) by (auto simp: list_all_iff dest: in_set_takeD)
  then have "cartInv (menuItems s) (cart (runCalls (take k calls) s))"
    using assms(1,4) inv0 by (intro cartInv_runCalls)
  then show "withinStock (menuItems (runCalls (take k calls) s))
               (cart (runCalls (take k calls) s))"
    by (simp add: cartInv_def)
qed

text \<open>
  C3. The claim is not met by the code. The menu the screen loads can hold an item without
  a stock (the owner's menu screen stores new items that way). For such an item the three
  guards compare with \<open>undefined\<close> and are false: two \<open>addToCart\<close> calls and one
  \<open>updateCartItemQuantity\<close> call put a quantity of 1000 in the cart, no call fails and no
  toast is emitted, and the cart is not within the stock.
\<close>

theorem cart_exceeds_missing_stock:
  "menuItems exCashierPos = [exTea]
   \<and> cart exCashierPos = []
   \<and> stock exTea = Undefined
   \<and> list_all (fromMenu (menuItems exCashierPos)) exTeaCalls
   \<and> map quantity (cart (runCalls (take 2 exTeaCalls) exCashierPos)) = [2]
   \<and> map quantity (cart (runCalls exTeaCalls exCashierPos)) = [1000]
   \<and> toasts (runCalls exTeaCalls exCashierPos) = []
   \<and> \<not> withinStock (menuItems (runCalls exTeaCalls exCashierPos))
          (cart (runCalls exTeaCalls exCashierPos))"
proof -
  have tea: "exTea = \<lparr>item_id = ''menu-17'', item_name = ''Tea'', description = ''Hot tea'',
      cashPrice = 5000, qrisPrice = 5500, categoryId = ''1'', categoryName = ''Drinks'',
      stock = Undefined\<rparr>"
    by (simp add: exTea_def newMenuItem_def)
  have mounted: "exCashierPos =
     \<lparr>networkStatus = online, pendingOperations = [],
      localStorage = storeNewMenuItem exTea emptyStorage, toasts = [],
      menuItems = [exTea], cart = [], paymentMethod = cash,
      isHolidayMode = False, location = ''/pos'', setItemThrows = (\<lambda>key. False)\<rparr>"
    by (simp add: exCashierPos_def mountPOS_def unmountPOS_def exPos_def storeNewMenuItem_def
        emptyStorage_def Let_def jsonItem_def jsonNumber_def tea)
  have run: "cart (runCalls exTeaCalls exCashierPos) = [asCartItem exTea 1000]"
    unfolding mounted exTeaCalls_def
    by (simp add: addToCart_def updateCartItemQuantity_def emit_def asCartItem_def tea
        jsLessEq_def jsGreaterEq_def jsGreater_def toNumber_def)
  have run2: "cart (runCalls (take 2 exTeaCalls) exCashierPos) = [asCartItem exTea 2]"
    unfolding mounted exTeaCalls_def
    by (simp add: addToCart_def emit_def asCartItem_def tea
        jsLessEq_def jsGreaterEq_def toNumber_def)
  have quiet: "toasts (runCalls exTeaCalls exCashierPos) = []"
    unfolding mounted exTeaCalls_def
    by (simp add: addToCart_def updateCartItemQuantity_def emit_def asCartItem_def tea
        jsLessEq_def jsGreaterEq_def jsGreater_def toNumber_def)
  have menu: "menuItems exCashierPos = [exTea]" and empty: "cart exCashierPos = []"
    by (simp_all add: mounted)
  have out: "\<not> withinStock [exTea] [asCartItem exTea 1000]"
    by (simp add: withinStock_def asCartItem_def tea jsAtMost_def toNumber_def)
  show ?thesis
    using menu empty run run2 quiet out
    by (simp add: exTeaCalls_def asCartItem_def tea)
qed


section \<open>A successful checkout\<close>

lemma find_the_line:
  assumes "distinct (map item_id (lines :: CartItem list))" and "line \<in> set lines"
    and "item_id line = k"
  shows "find (\<lambda>cartItem. item_id cartItem = k) lines = Some line"
  using find_in_distinct [of item_id lines line] assms by simp

lemma updatedMenuItems_nth:
  assumes "distinct (map item_id (cart s))" and "i < length (menuItems s)"
  shows "(\<forall>line \<in> set (cart s). item_id line = item_id (menuItems s ! i) \<longrightarrow>
            updatedMenuItems s ! i
              = (menuItems s ! i)\<lparr>stock := jsMinus (stock (menuItems s ! i)) (quantity line)\<rparr>)
       \<and> ((\<forall>line \<in> set (cart s). item_id line \<noteq> item_id (menuItems s ! i)) \<longrightarrow>
            updatedMenuItems s ! i = menuItems s ! i)"
proof (intro conjI ballI impI)
  fix line
  assume "line \<in> set (cart s)" and "item_id line = item_id (menuItems s ! i)"
  then have "find (\<lambda>cartItem. item_id cartItem = item_id (menuItems s ! i)) (cart s) = Some line"
    using assms(1) by (intro find_the_line)
  then show "updatedMenuItems s ! i
               = (menuItems s ! i)\<lparr>stock := jsMinus (stock (menuItems s ! i)) (quantity line)\<rparr>"
    using assms(2) by (simp add: updatedMenuItems_def)
next
  assume "\<forall>line \<in> set (cart s). item_id line \<noteq> item_id (menuItems s ! i)"
  then have "find (\<lambda>cartItem. item_id cartItem = item_id (menuItems s ! i)) (cart s) = None"
    by (simp add: find_None_iff)
  then show "updatedMenuItems s ! i = menuItems s ! i"
    using assms(2) by (simp add: updatedMenuItems_def)
qed

lemma queueForSync_fields [simp]:
  "localStorage (queueForSync a b t s) = localStorage s"
  "cart (queueForSync a b t s) = cart s"
  "menuItems (queueForSync a b t s) = menuItems s"
  "toasts (queueForSync a b t s) = toasts s"
  "location (queueForSync a b t s) = location s"
  by (simp_all add: queueForSync_def addPendingOperation_def)

lemma handleCheckout_completes:
  assumes "\<not> isHolidayMode s" and "cart s \<noteq> []"
    and "savedTransactions (ls_transactions (localStorage s)) = Some saved"
    and "\<not> setItemThrows s ''transactions''" and "\<not> setItemThrows s ''menuItems''"
  shows "localStorage (handleCheckout nowMs isoNow isoOpA isoOpB user s)
           = (localStorage s)
               \<lparr>ls_transactions :=
                  Stored (map jsonTransaction (saved @ [newTransaction nowMs isoNow user s])),
                ls_menuItems := Some (map jsonItem (updatedMenuItems s))\<rparr>"
    and "cart (handleCheckout nowMs isoNow isoOpA isoOpB user s) = []"
    and "location (handleCheckout nowMs isoNow isoOpA isoOpB user s)
           = ''/pos/history?transactionId='' @ tx_id (newTransaction nowMs isoNow user s)"
    and "toasts (handleCheckout nowMs isoNow isoOpA isoOpB user s)
           = toasts s @ [TransactionComplete (calculateTotal s)]"
    and "pendingOperations (handleCheckout nowMs isoNow isoOpA isoOpB user s)
           = pendingOperations (queueForSync isoOpA isoOpB (newTransaction nowMs isoNow user s) s)"
  using assms
  by (simp_all add: handleCheckout_def Let_def emit_def navigate_def unmountPOS_def
      queueForSync_def addPendingOperation_def)

lemma mountPOS_fields:
  "cart (mountPOS user s) = []"
  "ls_menuItems (localStorage s) = Some saved \<Longrightarrow> menuItems (mountPOS user s) = saved"
  "localStorage (mountPOS user s) = localStorage s"
  by (simp_all add: mountPOS_def unmountPOS_def Let_def emit_def split: option.splits)

text \<open>
  C2 (as amended). Take a cart that is not empty and holds one line per item, a store that
  is not in holiday mode, stored transactions that can be read, and both \<open>setItem\<close> calls
  succeeding. Then \<open>handleCheckout\<close> appends exactly one transaction to the stored
  transactions; its line items are the cart and its total is the cart's total. The stored
  menu, which is the menu the next mount of the screen shows, holds every menu item in its
  place: an item with a stock count and a cart line has that count decreased by the line's
  quantity, and an item without a cart line is stored as it was. The handler ends by
  leaving the screen, so the cart is empty afterwards, also at the next mount.
\<close>

theorem handleCheckout_success:
  assumes "\<not> isHolidayMode s" and "cart s \<noteq> []" and "distinct (map item_id (cart s))"
    and "savedTransactions (ls_transactions (localStorage s)) = Some saved"
    and "\<not> setItemThrows s ''transactions''" and "\<not> setItemThrows s ''menuItems''"
    and "s' = handleCheckout nowMs isoNow isoOpA isoOpB user s"
    and "t = newTransaction nowMs isoNow user s"
  shows "ls_transactions (localStorage s') = Stored (map jsonTransaction (saved @ [t]))
       \<and> items t = cart s \<and> total t = calculateTotal s
       \<and> ls_menuItems (localStorage s') = Some (menuItems (mountPOS user s'))
       \<and> length (menuItems (mountPOS user s')) = length (menuItems s)
       \<and> (\<forall>i < length (menuItems s).
            (\<forall>line \<in> set (cart s). \<forall>n.
               item_id line = item_id (menuItems s ! i) \<and> stock (menuItems s ! i) = Number n \<longrightarrow>
               menuItems (mountPOS user s') ! i
                 = (menuItems s ! i)\<lparr>stock := Number (n - quantity line)\<rparr>)
            \<and> ((\<forall>line \<in> set (cart s). item_id line \<noteq> item_id (menuItems s ! i)) \<longrightarrow>
               menuItems (mountPOS user s') ! i = jsonItem (menuItems s ! i)))
       \<and> cart s' = []
       \<and> cart (mountPOS user s') = []
       \<and> location s' = ''/pos/history?transactionId='' @ tx_id t"
  unfolding assms(7,8)
proof (intro conjI)
  let ?s' = "handleCheckout nowMs isoNow isoOpA isoOpB user s"
  note p = handleCheckout_completes [OF assms(1,2,4,5,6), of nowMs isoNow isoOpA isoOpB user]
  have stored: "ls_menuItems (localStorage ?s') = Some (map jsonItem (updatedMenuItems s))"
    by (simp add: p(1))
  have next_menu: "menuItems (mountPOS user ?s') = map jsonItem (updatedMenuItems s)"
    using stored by (rule mountPOS_fields(2))
  show "ls_transactions (localStorage ?s')
          = Stored (map jsonTransaction (saved @ [newTransaction nowMs isoNow user s]))"
    by (simp add: p(1))
  show "items (newTransaction nowMs isoNow user s) = cart s"
    by (simp add: newTransaction_def)
  show "total (newTransaction nowMs isoNow user s) = calculateTotal s"
    by (simp add: newTransaction_def)
  show "ls_menuItems (localStorage ?s') = Some (menuItems (mountPOS user ?s'))"
    by (simp add: stored next_menu)
  show "length (menuItems (mountPOS user ?s')) = length (menuItems s)"
    by (simp add: next_menu updatedMenuItems_def)
  show "\<forall>i < length (menuItems s).
            (\<forall>line \<in> set (cart s). \<forall>n.
               item_id line = item_id (menuItems s ! i) \<and> stock (menuItems s ! i) = Number n \<longrightarrow>
               menuItems (mountPOS user ?s') ! i
                 = (menuItems s ! i)\<lparr>stock := Number (n - quantity line)\<rparr>)
            \<and> ((\<forall>line \<in> set (cart s). item_id line \<noteq> item_id (menuItems s ! i)) \<longrightarrow>
               menuItems (mountPOS user ?s') ! i = jsonItem (menuItems s ! i))"
  proof (intro allI impI)
    fix i assume i: "i < length (menuItems s)"
    have len: "i < length (updatedMenuItems s)"
      using i by (simp add: updatedMenuItems_def)
    note u = updatedMenuItems_nth [OF assms(3) i]
    have a: "menuItems (mountPOS user ?s') ! i
                 = (menuItems s ! i)\<lparr>stock := Number (n - quantity line)\<rparr>"
      if "line \<in> set (cart s)" "item_id line = item_id (menuItems s ! i)"
        "stock (menuItems s ! i) = Number n" for line n
    proof -
      have "updatedMenuItems s ! i
              = (menuItems s ! i)\<lparr>stock := jsMinus (stock (menuItems s ! i)) (quantity line)\<rparr>"
        using u that(1,2) by blast
      then show ?thesis
        using that(3) len
        by (simp add: next_menu jsonItem_def jsMinus_def toNumber_def jsonNumber_def)
    qed
    have b: "menuItems (mountPOS user ?s') ! i = jsonItem (menuItems s ! i)"
      if "\<forall>line \<in> set (cart s). item_id line \<noteq> item_id (menuItems s ! i)"
    proof -
      have "updatedMenuItems s ! i = menuItems s ! i"
        using u that by blast
      then show ?thesis using len by (simp add: next_menu)
    qed
    show "(\<forall>line \<in> set (cart s). \<forall>n.
               item_id line = item_id (menuItems s ! i) \<and> stock (menuItems s ! i) = Number n \<longrightarrow>
               menuItems (mountPOS user ?s') ! i
                 = (menuItems s ! i)\<lparr>stock := Number (n - quantity line)\<rparr>)
            \<and> ((\<forall>line \<in> set (cart s). item_id line \<noteq> item_id (menuItems s ! i)) \<longrightarrow>
               menuItems (mountPOS user ?s') ! i = jsonItem (menuItems s ! i))"
      using a b by blast
  qed
  show "cart ?s' = []"
    by (rule p(2))
  show "cart (mountPOS user ?s') = []"
    by (rule mountPOS_fields(1))
  show "location ?s'
          = ''/pos/history?transactionId='' @ tx_id (newTransaction nowMs isoNow user s)"
    by (rule p(3))
qed

theorem handleCheckout_success_witness:
  "\<not> isHolidayMode (exPos online False [asCartItem icedCoffee 3])
   \<and> cart (exPos online False [asCartItem icedCoffee 3]) \<noteq> []
   \<and> distinct (map item_id (cart (exPos online False [asCartItem icedCoffee 3])))
   \<and> savedTransactions (ls_transactions (localStorage (exPos online False [asCartItem icedCoffee 3])))
       = Some []
   \<and> \<not> setItemThrows (exPos online False [asCartItem icedCoffee 3]) ''transactions''
   \<and> \<not> setItemThrows (exPos online False [asCartItem icedCoffee 3]) ''menuItems''
   \<and> ls_transactions (localStorage
        (handleCheckout 17 ''t0'' ''t1'' ''t2'' None (exPos online False [asCartItem icedCoffee 3])))
       = Stored [newTransaction 17 ''t0'' None (exPos online False [asCartItem icedCoffee 3])]
   \<and> total (newTransaction 17 ''t0'' None (exPos online False [asCartItem icedCoffee 3])) = 60000
   \<and> cart (handleCheckout 17 ''t0'' ''t1'' ''t2'' None (exPos online False [asCartItem icedCoffee 3]))
       = []
   \<and> map stock (menuItems (mountPOS None
        (handleCheckout 17 ''t0'' ''t1'' ''t2'' None (exPos online False [asCartItem icedCoffee 3]))))
       = [Number 7, Number 8]
   \<and> map quantity (cart exSecondSale) = [2]
   \<and> map stock (menuItems (mountPOS None (handleCheckout 18 ''t3'' ''t4'' ''t5'' None exSecondSale)))
       = [Number 5, Number 8]"
proof -
  let ?s = "exPos online False [asCartItem icedCoffee 3]"
  let ?s' = "handleCheckout 17 ''t0'' ''t1'' ''t2'' None ?s"
  have h1: "\<not> isHolidayMode ?s" by (simp add: exPos_def)
  have h2: "cart ?s \<noteq> []" by (simp add: exPos_def)
  have h3: "distinct (map item_id (cart ?s))" by (simp add: exPos_def)
  have h4: "savedTransactions (ls_transactions (localStorage ?s)) = Some []"
    by (simp add: exPos_def emptyStorage_def savedTransactions_def)
  have h5: "\<not> setItemThrows ?s ''transactions''" by (simp add: exPos_def)
  have h6: "\<not> setItemThrows ?s ''menuItems''" by (simp add: exPos_def)
  note main = handleCheckout_success [where nowMs = 17 and isoNow = "''t0''" and isoOpA = "''t1''"
      and isoOpB = "''t2''" and user = None, OF h1 h2 h3 h4 h5 h6 refl refl]
  have clean: "jsonTransaction (newTransaction 17 ''t0'' None ?s) = newTransaction 17 ''t0'' None ?s"
    by (simp add: jsonTransaction_def newTransaction_def exPos_def asCartItem_def icedCoffee_def
        jsonItem_def jsonNumber_def)
  have a: "ls_transactions (localStorage ?s') = Stored [newTransaction 17 ''t0'' None ?s]"
    using main clean by simp
  have b: "total (newTransaction 17 ''t0'' None ?s) = 60000"
    using main by (simp add: calculateTotal_def exPos_def asCartItem_def icedCoffee_def)
  have c: "cart ?s' = []"
    using main by simp
  have shown: "mountPOS None ?s' =
     \<lparr>networkStatus = online, pendingOperations = [],
      localStorage = emptyStorage
        \<lparr>ls_transactions := Stored [newTransaction 17 ''t0'' None ?s],
         ls_menuItems := Some [icedCoffee\<lparr>stock := Number 7\<rparr>, sandwich]\<rparr>,
      toasts = [TransactionComplete 60000],
      menuItems = [icedCoffee\<lparr>stock := Number 7\<rparr>, sandwich], cart = [], paymentMethod = cash,
      isHolidayMode = False, location = ''/pos'', setItemThrows = (\<lambda>key. False)\<rparr>"
    using clean
    by (simp add: handleCheckout_def Let_def emit_def navigate_def unmountPOS_def mountPOS_def
        queueForSync_def updatedMenuItems_def savedTransactions_def calculateTotal_def
        exPos_def emptyStorage_def asCartItem_def icedCoffee_def sandwich_def
        jsonItem_def jsonNumber_def jsMinus_def toNumber_def)
  have d: "map stock (menuItems (mountPOS None ?s')) = [Number 7, Number 8]"
    by (simp add: shown sandwich_def)
  have second: "exSecondSale = (mountPOS None ?s')\<lparr>cart := [asCartItem (icedCoffee\<lparr>stock := Number 7\<rparr>) 2]\<rparr>"
    unfolding exSecondSale_def shown
    by (simp add: addToCart_def emit_def asCartItem_def icedCoffee_def
        jsLessEq_def jsGreaterEq_def toNumber_def)
  have e: "map quantity (cart exSecondSale) = [2]"
    by (simp add: second asCartItem_def)
  have f: "map stock (menuItems (mountPOS None (handleCheckout 18 ''t3'' ''t4'' ''t5'' None exSecondSale)))
       = [Number 5, Number 8]"
    unfolding second shown
    by (simp add: handleCheckout_def Let_def emit_def navigate_def unmountPOS_def mountPOS_def
        queueForSync_def updatedMenuItems_def savedTransactions_def
        emptyStorage_def asCartItem_def icedCoffee_def sandwich_def
        jsonItem_def jsonNumber_def jsMinus_def toNumber_def)
  show ?thesis using h1 h2 h3 h4 h5 h6 a b c d e f by simp
qed


text \<open>
  C2 as stated fails when a write fails. With a store that takes the transactions but
  rejects the menu, checking out three iced coffees stores a transaction, leaves the stock
  at ten, does not store the menu, keeps the cart, and reports an error.
\<close>

theorem checkout_write_fails_counterexample:
  "\<not> isHolidayMode exFullPos
   \<and> cart exFullPos \<noteq> []
   \<and> cart (handleCheckout 17 ''t0'' ''t1'' ''t2'' None exFullPos) = [asCartItem icedCoffee 3]
   \<and> map stock (menuItems (handleCheckout 17 ''t0'' ''t1'' ''t2'' None exFullPos))
       = [Number 10, Number 8]
   \<and> ls_menuItems (localStorage (handleCheckout 17 ''t0'' ''t1'' ''t2'' None exFullPos)) = None
   \<and> ls_transactions (localStorage (handleCheckout 17 ''t0'' ''t1'' ''t2'' None exFullPos))
       \<noteq> Absent
   \<and> toasts (handleCheckout 17 ''t0'' ''t1'' ''t2'' None exFullPos) = [ErrorProcessingTransaction]"
  by (simp add: handleCheckout_def Let_def emit_def exFullPos_def exPos_def emptyStorage_def
      savedTransactions_def icedCoffee_def sandwich_def)



section \<open>Operations queued by checkout\<close>

lemma decrease_all:
  "distinct (map item_id (lines :: CartItem list)) \<Longrightarrow>
   foldl (\<lambda>menu entry. decreaseStock entry menu) menu
     (map (\<lambda>item. (item_id item, quantity item)) lines)
   = map (\<lambda>item. case find (\<lambda>cartItem. item_id cartItem = item_id item) lines of
                    Some cartItem \<Rightarrow> item\<lparr>stock := jsMinus (stock item) (quantity cartItem)\<rparr>
                  | None \<Rightarrow> item) menu"
proof (induction lines arbitrary: menu)
  case Nil
  then show ?case by simp
next
  case (Cons c cs)
  have none: "find (\<lambda>cartItem. item_id cartItem = item_id c) cs = None"
    using Cons.prems by (auto simp: find_None_iff image_iff)
  have "foldl (\<lambda>menu entry. decreaseStock entry menu) menu
          (map (\<lambda>item. (item_id item, quantity item)) (c # cs))
        = foldl (\<lambda>menu entry. decreaseStock entry menu)
            (decreaseStock (item_id c, quantity c) menu)
            (map (\<lambda>item. (item_id item, quantity item)) cs)"
    by simp
  also have "\<dots> = map (\<lambda>item. case find (\<lambda>cartItem. item_id cartItem = item_id item) cs of
                    Some cartItem \<Rightarrow> item\<lparr>stock := jsMinus (stock item) (quantity cartItem)\<rparr>
                  | None \<Rightarrow> item) (decreaseStock (item_id c, quantity c) menu)"
    using Cons.prems by (intro Cons.IH) simp
  also have "\<dots> = map (\<lambda>item. case find (\<lambda>cartItem. item_id cartItem = item_id item) (c # cs) of
                    Some cartItem \<Rightarrow> item\<lparr>stock := jsMinus (stock item) (quantity cartItem)\<rparr>
                  | None \<Rightarrow> item) menu"
    using none by (simp add: decreaseStock_def)
  finally show ?case .
qed

text \<open>
  C8. A successful checkout (both guards passed, the stored transactions read and both
  writes done) while the network status is offline appends exactly two operations to the
  queue, \<open>CREATE_TRANSACTION\<close> (carrying the new transaction) followed by \<open>UPDATE_STOCK\<close>
  (carrying the id and quantity of every cart line), in that order, each stamped with its
  enqueue time; while online it appends nothing. Replaying the appended operations in FIFO
  order, from the transactions and the menu the checkout started from, gives the
  transactions and the menu that the checkout stored (for a cart with one line per item).
\<close>

theorem handleCheckout_enqueues:
  assumes "\<not> isHolidayMode s" and "cart s \<noteq> []"
    and "savedTransactions (ls_transactions (localStorage s)) = Some saved"
    and "\<not> setItemThrows s ''transactions''" and "\<not> setItemThrows s ''menuItems''"
  shows "pendingOperations (handleCheckout nowMs isoNow isoOpA isoOpB user s) =
     (if networkStatus s = offline
      then pendingOperations s @
        [\<lparr>type = ''CREATE_TRANSACTION'',
          data = TransactionData (newTransaction nowMs isoNow user s),
          timestamp = Some isoOpA\<rparr>,
         \<lparr>type = ''UPDATE_STOCK'',
          data = StockData (map (\<lambda>item. (item_id item, quantity item)) (cart s)),
          timestamp = Some isoOpB\<rparr>]
      else pendingOperations s)
   \<and> (networkStatus s = offline \<and> distinct (map item_id (cart s)) \<longrightarrow>
        ls_transactions (localStorage (handleCheckout nowMs isoNow isoOpA isoOpB user s))
          = Stored (map jsonTransaction (replicaTransactions
              (replayQueue
                 (drop (length (pendingOperations s))
                    (pendingOperations (handleCheckout nowMs isoNow isoOpA isoOpB user s)))
                 \<lparr>replicaTransactions = saved, replicaMenu = menuItems s\<rparr>)))
        \<and> ls_menuItems (localStorage (handleCheckout nowMs isoNow isoOpA isoOpB user s))
          = Some (map jsonItem (replicaMenu
              (replayQueue
                 (drop (length (pendingOperations s))
                    (pendingOperations (handleCheckout nowMs isoNow isoOpA isoOpB user s)))
                 \<lparr>replicaTransactions = saved, replicaMenu = menuItems s\<rparr>))))"
proof -
  let ?s' = "handleCheckout nowMs isoNow isoOpA isoOpB user s"
  note p = handleCheckout_completes [OF assms, of nowMs isoNow isoOpA isoOpB user]
  have queue: "pendingOperations ?s' =
     (if networkStatus s = offline
      then pendingOperations s @
        [\<lparr>type = ''CREATE_TRANSACTION'',
          data = TransactionData (newTransaction nowMs isoNow user s),
          timestamp = Some isoOpA\<rparr>,
         \<lparr>type = ''UPDATE_STOCK'',
          data = StockData (map (\<lambda>item. (item_id item, quantity item)) (cart s)),
          timestamp = Some isoOpB\<rparr>]
      else pendingOperations s)"
    by (simp add: p(5) queueForSync_def addPendingOperation_def)
  have replay: "replayQueue (drop (length (pendingOperations s)) (pendingOperations ?s'))
                  \<lparr>replicaTransactions = saved, replicaMenu = menuItems s\<rparr>
                = \<lparr>replicaTransactions = saved @ [newTransaction nowMs isoNow user s],
                   replicaMenu = updatedMenuItems s\<rparr>"
    if "networkStatus s = offline" "distinct (map item_id (cart s))"
    using that decrease_all [OF that(2), of "menuItems s"]
    by (simp add: queue replayQueue_def replayOperation_def updatedMenuItems_def)
  show ?thesis
    using queue replay by (simp add: p(1))
qed


theorem handleCheckout_enqueues_witness:
  "\<not> isHolidayMode (exPos offline False [asCartItem icedCoffee 2])
   \<and> cart (exPos offline False [asCartItem icedCoffee 2]) \<noteq> []
   \<and> savedTransactions (ls_transactions (localStorage (exPos offline False [asCartItem icedCoffee 2])))
       = Some []
   \<and> \<not> setItemThrows (exPos offline False [asCartItem icedCoffee 2]) ''transactions''
   \<and> \<not> setItemThrows (exPos offline False [asCartItem icedCoffee 2]) ''menuItems''
   \<and> map type (pendingOperations
        (handleCheckout 17 ''t0'' ''t1'' ''t2'' None (exPos offline False [asCartItem icedCoffee 2])))
       = [''CREATE_TRANSACTION'', ''UPDATE_STOCK'']
   \<and> map data (pendingOperations
        (handleCheckout 17 ''t0'' ''t1'' ''t2'' None (exPos offline False [asCartItem icedCoffee 2])))
       = [TransactionData (newTransaction 17 ''t0'' None (exPos offline False [asCartItem icedCoffee 2])),
          StockData [(''1'', 2)]]
   \<and> map stock (replicaMenu (replayQueue
        (pendingOperations
           (handleCheckout 17 ''t0'' ''t1'' ''t2'' None (exPos offline False [asCartItem icedCoffee 2])))
        \<lparr>replicaTransactions = [], replicaMenu = [icedCoffee, sandwich]\<rparr>))
       = [Number 8, Number 8]
   \<and> ls_menuItems (localStorage
        (handleCheckout 17 ''t0'' ''t1'' ''t2'' None (exPos offline False [asCartItem icedCoffee 2])))
       = Some [icedCoffee\<lparr>stock := Number 8\<rparr>, sandwich]
   \<and> pendingOperations
        (handleCheckout 17 ''t0'' ''t1'' ''t2'' None (exPos online False [asCartItem icedCoffee 2]))
       = []"
proof -
  let ?s = "exPos offline False [asCartItem icedCoffee 2]"
  let ?s' = "handleCheckout 17 ''t0'' ''t1'' ''t2'' None ?s"
  let ?o = "exPos online False [asCartItem icedCoffee 2]"
  have h1: "\<not> isHolidayMode ?s" by (simp add: exPos_def)
  have h2: "cart ?s \<noteq> []" by (simp add: exPos_def)
  have h3: "savedTransactions (ls_transactions (localStorage ?s)) = Some []"
    by (simp add: exPos_def emptyStorage_def savedTransactions_def)
  have h4: "\<not> setItemThrows ?s ''transactions''" by (simp add: exPos_def)
  have h5: "\<not> setItemThrows ?s ''menuItems''" by (simp add: exPos_def)
  note main = handleCheckout_enqueues [where nowMs = 17 and isoNow = "''t0''" and isoOpA = "''t1''"
      and isoOpB = "''t2''" and user = None, OF h1 h2 h3 h4 h5]
  have o1: "\<not> isHolidayMode ?o" by (simp add: exPos_def)
  have o2: "cart ?o \<noteq> []" by (simp add: exPos_def)
  have o3: "savedTransactions (ls_transactions (localStorage ?o)) = Some []"
    by (simp add: exPos_def emptyStorage_def savedTransactions_def)
  have o4: "\<not> setItemThrows ?o ''transactions''" by (simp add: exPos_def)
  have o5: "\<not> setItemThrows ?o ''menuItems''" by (simp add: exPos_def)
  note online' = handleCheckout_enqueues [where nowMs = 17 and isoNow = "''t0''"
      and isoOpA = "''t1''" and isoOpB = "''t2''" and user = None, OF o1 o2 o3 o4 o5]
  have facts: "networkStatus ?s = offline" "pendingOperations ?s = []"
    "cart ?s = [asCartItem icedCoffee 2]" "menuItems ?s = [icedCoffee, sandwich]"
    "networkStatus ?o = online" "pendingOperations ?o = []"
    by (simp_all add: exPos_def)
  have queue: "pendingOperations ?s' =
        [\<lparr>type = ''CREATE_TRANSACTION'',
          data = TransactionData (newTransaction 17 ''t0'' None ?s),
          timestamp = Some ''t1''\<rparr>,
         \<lparr>type = ''UPDATE_STOCK'', data = StockData [(''1'', 2)], timestamp = Some ''t2''\<rparr>]"
    using main facts by (simp add: asCartItem_def icedCoffee_def)
  have a: "map type (pendingOperations ?s') = [''CREATE_TRANSACTION'', ''UPDATE_STOCK'']"
    by (simp add: queue)
  have b: "map data (pendingOperations ?s')
       = [TransactionData (newTransaction 17 ''t0'' None ?s), StockData [(''1'', 2)]]"
    by (simp add: queue)
  have c: "map stock (replicaMenu (replayQueue (pendingOperations ?s')
        \<lparr>replicaTransactions = [], replicaMenu = [icedCoffee, sandwich]\<rparr>))
       = [Number 8, Number 8]"
    unfolding queue
    by (simp add: replayQueue_def replayOperation_def decreaseStock_def icedCoffee_def
        sandwich_def jsMinus_def toNumber_def)
  have d: "ls_menuItems (localStorage ?s') = Some [icedCoffee\<lparr>stock := Number 8\<rparr>, sandwich]"
    using main facts unfolding queue
    by (simp add: replayQueue_def replayOperation_def decreaseStock_def icedCoffee_def
        sandwich_def jsMinus_def toNumber_def asCartItem_def jsonItem_def jsonNumber_def)
  have e: "pendingOperations (handleCheckout 17 ''t0'' ''t1'' ''t2'' None ?o) = []"
    using online' facts by simp
  show ?thesis using h1 h2 h3 h4 h5 a b c d e by simp
qed



section \<open>Starting and ending the selling day\<close>

text \<open>
  C4. Whatever the stock items held before, after \<open>handleStartSelling\<close> the current stock of
  every stock item is its configured initial stock, and after \<open>handleEndSelling\<close> the current
  stock of every stock item is 0. The items, their ids and their initial stock are otherwise
  the same, and the updated list is what is stored under the store's key.
\<close>

theorem selling_day_stock:
  "map currentStock (stockItems (handleStartSelling isoNow isoOp user s))
       = map initialStock (stockItems s)
   \<and> map initialStock (stockItems (handleStartSelling isoNow isoOp user s))
       = map initialStock (stockItems s)
   \<and> map stock_id (stockItems (handleStartSelling isoNow isoOp user s))
       = map stock_id (stockItems s)
   \<and> ls_stockItems (localStorage (handleStartSelling isoNow isoOp user s)) (storeKey user)
       = Some (stockItems (handleStartSelling isoNow isoOp user s))
   \<and> map currentStock (stockItems (handleEndSelling isoNow isoOp user s))
       = replicate (length (stockItems s)) 0
   \<and> map initialStock (stockItems (handleEndSelling isoNow isoOp user s))
       = map initialStock (stockItems s)
   \<and> map stock_id (stockItems (handleEndSelling isoNow isoOp user s))
       = map stock_id (stockItems s)
   \<and> ls_stockItems (localStorage (handleEndSelling isoNow isoOp user s)) (storeKey user)
       = Some (stockItems (handleEndSelling isoNow isoOp user s))"
  by (simp add: handleStartSelling_def handleEndSelling_def Let_def emit_def
      addPendingOperation_def saveStock_def comp_def map_replicate_const)

theorem selling_day_stock_witness:
  "map currentStock (stockItems (exStockControl online False)) = [3, 0]
   \<and> map currentStock
        (stockItems (handleStartSelling ''t0'' ''t1'' (Some exManager) (exStockControl online False)))
       = [10, 8]
   \<and> map currentStock
        (stockItems (handleEndSelling ''t0'' ''t1'' (Some exManager) (exStockControl online True)))
       = [0, 0]"
  using selling_day_stock [of "''t0''" "''t1''" "Some exManager" "exStockControl online False"]
    selling_day_stock [of "''t0''" "''t1''" "Some exManager" "exStockControl online True"]
  by (simp add: exStockControl_def exStockItems_def)

section \<open>The queue and a reload\<close>

lemma jsonNumber_idem [simp]: "jsonNumber (jsonNumber x) = jsonNumber x"
  by (cases x) (simp_all add: jsonNumber_def)

lemma jsonItem_idem [simp]: "jsonItem (jsonItem item) = jsonItem item"
  by (simp add: jsonItem_def)

lemma jsonTransaction_idem [simp]: "jsonTransaction (jsonTransaction t) = jsonTransaction t"
  by (simp add: jsonTransaction_def comp_def)

lemma jsonOperation_idem [simp]: "jsonOperation (jsonOperation operation) = jsonOperation operation"
  by (cases "data operation") (simp_all add: jsonOperation_def jsonPayload_def)

lemma jsonOperation_comp [simp]: "jsonOperation \<circ> jsonOperation = jsonOperation"
  by (simp add: fun_eq_iff)

text \<open>
  C6 (as amended). \<open>addPendingOperation\<close> itself writes nothing to the store. The
  provider's persisting effect, which runs after the state update, stores the full queue,
  the new entry included, as JSON holds it. Once it has run, mounting the provider afresh
  over that store (a reload) yields that stored queue and leaves the store as it was, and
  draining after the reload ends in the same queue (as JSON holds it), the same store and
  the same notification as draining without the reload.
\<close>

theorem enqueue_survives_reload:
  "localStorage (addPendingOperation now operation s) = localStorage s
   \<and> ls_pendingOperations (localStorage (storePendingOperations (addPendingOperation now operation s)))
     = Some (map jsonOperation (pendingOperations s @ [operation\<lparr>timestamp := Some now\<rparr>]))
   \<and> pendingOperations
        (mountProvider status (localStorage (storePendingOperations (addPendingOperation now operation s))))
       = map jsonOperation (pendingOperations s @ [operation\<lparr>timestamp := Some now\<rparr>])
   \<and> localStorage
        (mountProvider status (localStorage (storePendingOperations (addPendingOperation now operation s))))
       = localStorage (storePendingOperations (addPendingOperation now operation s))
   \<and> pendingOperations (storePendingOperations (processPendingOperations
        (mountProvider (networkStatus s)
           (localStorage (storePendingOperations (addPendingOperation now operation s))))))
       = map jsonOperation (pendingOperations (storePendingOperations (processPendingOperations
           (storePendingOperations (addPendingOperation now operation s)))))
   \<and> localStorage (storePendingOperations (processPendingOperations
        (mountProvider (networkStatus s)
           (localStorage (storePendingOperations (addPendingOperation now operation s))))))
       = localStorage (storePendingOperations (processPendingOperations
           (storePendingOperations (addPendingOperation now operation s))))
   \<and> toasts s @ toasts (processPendingOperations
        (mountProvider (networkStatus s)
           (localStorage (storePendingOperations (addPendingOperation now operation s)))))
       = toasts (processPendingOperations
           (storePendingOperations (addPendingOperation now operation s)))"
  by (simp add: storePendingOperations_def addPendingOperation_def mountProvider_def
      initialWorld_def loadPendingOperations_def processPendingOperations_def
      clearPendingOperations_def emit_def Let_def)

theorem enqueue_survives_reload_witness:
  "pendingOperations (mountProvider online (localStorage (storePendingOperations
      (addPendingOperation ''t1'' (exOperation ''UPDATE_STOCK'') (exWorld offline [exOperation ''A''])))))
     = [exOperation ''A'',
        \<lparr>type = ''UPDATE_STOCK'', data = StockData [(''1'', 2)], timestamp = Some ''t1''\<rparr>]"
  using enqueue_survives_reload [of "''t1''" "exOperation ''UPDATE_STOCK''"
      "exWorld offline [exOperation ''A'']" online]
  by (simp add: exWorld_def exOperation_def jsonOperation_def jsonPayload_def)

text \<open>
  C6 as stated fails: the enqueue does not persist. With one entry queued and stored, a
  second entry is enqueued; the store still holds the first entry only, and a reload at
  that moment comes back without the second.
\<close>

theorem enqueue_not_persisted_counterexample:
  "ls_pendingOperations (localStorage
      (addPendingOperation ''t1'' (exOperation ''UPDATE_STOCK'') exStoredWorld))
     = Some [exOperation ''A'']
   \<and> pendingOperations (addPendingOperation ''t1'' (exOperation ''UPDATE_STOCK'') exStoredWorld)
     = [exOperation ''A'',
        \<lparr>type = ''UPDATE_STOCK'', data = StockData [(''1'', 2)], timestamp = Some ''t1''\<rparr>]
   \<and> pendingOperations (mountProvider offline (localStorage
      (addPendingOperation ''t1'' (exOperation ''UPDATE_STOCK'') exStoredWorld)))
     = [exOperation ''A'']"
  by (simp add: exStoredWorld_def storePendingOperations_def addPendingOperation_def
      mountProvider_def initialWorld_def loadPendingOperations_def Let_def
      exWorld_def exOperation_def jsonOperation_def jsonPayload_def emptyStorage_def)


section \<open>Starting a selling day that is already started\<close>

subsection \<open>The remote table under the start-selling loop\<close>




lemma row_id_touch [simp]:
  "row_id \<circ> (\<lambda>row::StoreStock. if row_id row = rid
                  then row\<lparr>row_quantity := q, is_active := True\<rparr> else row) = row_id"
  by (auto simp: fun_eq_iff)

lemma sessionKey_touch [simp]:
  "sessionKey \<circ> (\<lambda>row::StoreStock. if row_id row = rid
                  then row\<lparr>row_quantity := q, is_active := True\<rparr> else row) = sessionKey"
  by (auto simp: fun_eq_iff sessionKey_def)























end
